theory Spec2Isabelle
  imports Complex_Main
begin

section \<open>Domain store\<close>

text \<open>
  The records of \<^verbatim>\<open>src/models/database.py\<close>. A nullable column is an
  \<open>option\<close>. A \<^verbatim>\<open>db.Float\<close> column is read as an exact rational:
  sums, differences and comparisons are the mathematical ones, and rounding of binary
  floating point is outside this development. A relationship
  (\<^verbatim>\<open>project.applications\<close>, \<^verbatim>\<open>app.funding_source\<close>) is the
  list or the optional record the ORM loads.
\<close>

datatype ProjectPhase =
  PRE_DEVELOPMENT | APPLICATION_FINANCING | CONSTRUCTION | LEASE_UP_COMPLIANCE

datatype FundingSourceType =
  LIHTC_9_PERCENT | LIHTC_4_PERCENT | FHLB_AHP | ORCA | HOME | PDLP | CONGRESSIONAL_CIP

datatype ApplicationStatus =
  DRAFT | SUBMITTED | UNDER_REVIEW | APPROVED | DENIED | WITHDRAWN

fun type_value :: "FundingSourceType \<Rightarrow> string" where
  "type_value LIHTC_9_PERCENT = ''LIHTC 9%''"
| "type_value LIHTC_4_PERCENT = ''LIHTC 4%''"
| "type_value FHLB_AHP = ''FHLB AHP''"
| "type_value ORCA = ''ORCA''"
| "type_value HOME = ''HOME''"
| "type_value PDLP = ''PDLP''"
| "type_value CONGRESSIONAL_CIP = ''Congressional/CIP''"

record FundingSource =
  fs_id :: int
  fs_name :: string
  fs_type :: FundingSourceType
  award_amount_min :: "rat option"
  award_amount_max :: "rat option"
  is_active :: bool

record Application =
  app_id :: int
  funding_source_id :: int
  funding_source :: "FundingSource option"
  app_status :: ApplicationStatus
  requested_amount :: "rat option"
  awarded_amount :: "rat option"

record Project =
  project_id :: int
  project_name :: string
  city :: "string option"
  state :: "string option"
  phase :: "ProjectPhase option"
  project_type :: "string option"
  population_type :: "string option"
  total_units :: "int option"
  total_cost :: "rat option"
  sharepoint_site_url :: "string option"
  sharepoint_email :: "string option"
  sharepoint_group_id :: "string option"
  applications :: "Application list"

text \<open>
  Python's \<^verbatim>\<open>x or 0\<close> on a nullable number: \<^verbatim>\<open>None\<close> and
  \<^verbatim>\<open>0.0\<close> are both falsy, so both give \<^verbatim>\<open>0\<close>.
\<close>

definition or0 :: "rat option \<Rightarrow> rat" where
  "or0 x = (case x of None \<Rightarrow> 0 | Some v \<Rightarrow> (if v \<noteq> 0 then v else 0))"

section \<open>Funding aggregator (\<^verbatim>\<open>routes/projects.py\<close>)\<close>

text \<open>
  \<^verbatim>\<open>total_awarded = sum([app.awarded_amount or 0 for app in project.applications])\<close>
  and \<^verbatim>\<open>funding_gap = (project.total_cost or 0) - total_awarded\<close>, as
  \<^verbatim>\<open>get_projects\<close> and \<^verbatim>\<open>get_project\<close> both compute them.
\<close>

definition total_awarded :: "Project \<Rightarrow> rat" where
  "total_awarded project = sum_list (map (\<lambda>app. or0 (awarded_amount app)) (applications project))"


definition funding_gap :: "Project \<Rightarrow> rat" where
  "funding_gap project = or0 (total_cost project) - total_awarded project"







text \<open>
  The gap as the specification words it: the cost if set, else 0, minus the sum over the
  project's applications of the awarded amount if set, else 0.
\<close>

definition spec_funding_gap :: "Project \<Rightarrow> rat" where
  "spec_funding_gap p =
     (case total_cost p of None \<Rightarrow> 0 | Some c \<Rightarrow> c)
       - (\<Sum>a\<leftarrow>applications p. case awarded_amount a of None \<Rightarrow> 0 | Some v \<Rightarrow> v)"


definition example_project :: "int \<Rightarrow> rat option \<Rightarrow> Application list \<Rightarrow> Project" where
  "example_project i cost apps =
     \<lparr> project_id = i, project_name = ''Riverside Commons'', city = None, state = None,
       phase = None, project_type = None, population_type = None, total_units = None,
       total_cost = cost, sharepoint_site_url = None, sharepoint_email = None,
       sharepoint_group_id = None, applications = apps \<rparr>"

section \<open>Requests and responses\<close>

text \<open>
  A JSON request body is a dictionary from keys to JSON values; \<^verbatim>\<open>data.get(k)\<close>
  is the lookup, with \<^verbatim>\<open>None\<close> for a missing key. \<open>truthy\<close> is Python's truth
  value of the decoded value, which decides every \<^verbatim>\<open>if not data.get(...)\<close>.
\<close>

datatype jval =
  JNull | JBool bool | JNum rat | JStr string | JArr "jval list" | JObj "(string \<times> jval) list"

fun truthy :: "jval \<Rightarrow> bool" where
  "truthy JNull = False"
| "truthy (JBool b) = b"
| "truthy (JNum r) = (r \<noteq> 0)"
| "truthy (JStr s) = (s \<noteq> [])"
| "truthy (JArr xs) = (xs \<noteq> [])"
| "truthy (JObj kvs) = (kvs \<noteq> [])"

definition get_truthy :: "(string \<rightharpoonup> jval) \<Rightarrow> string \<Rightarrow> bool" where
  "get_truthy data k = (case data k of None \<Rightarrow> False | Some v \<Rightarrow> truthy v)"

text \<open>
  The exceptions the handlers can meet, and the three shapes of an answer: the success
  envelope with its status, an explicit error envelope with its status and message, and
  the \<^verbatim>\<open>except Exception\<close> branch (status 500, after a rollback of the session).
\<close>

datatype exn =
  HTTPError nat | NotFound | TypeError | ValueError | ArgumentError | ZeroDivisionError
  | ConnectionFailure | Exception string

datatype 'a response = Success nat 'a | Failure nat string | Unhandled exn

section \<open>Time and billing (\<^verbatim>\<open>routes/time_tracking.py\<close>)\<close>

record TimeEntry =
  entry_id :: int
  entry_project_id :: "int option"
  user_name :: string
  description :: string
  hours :: rat
  hourly_rate :: rat
  entry_date :: nat
  is_billable :: bool
  is_invoiced :: bool

record time_totals =
  total_hours :: rat
  total_billable_hours :: rat
  total_amount :: rat
  total_invoiced_amount :: rat
  total_unbilled_amount :: rat
  entries_count :: nat

text \<open>
  The totals of \<^verbatim>\<open>get_time_summary\<close>, from the entries the filtered query
  returned. Each total is one list comprehension of the source, with its own condition.
  (The rollups by project and by user read the same entries and feed no total.)
\<close>

definition get_time_summary :: "TimeEntry list \<Rightarrow> time_totals" where
  "get_time_summary time_entries =
     \<lparr> total_hours = sum_list (map hours time_entries),
       total_billable_hours = sum_list (map hours (filter is_billable time_entries)),
       total_amount =
         sum_list (map (\<lambda>entry. hours entry * hourly_rate entry)
                       (filter is_billable time_entries)),
       total_invoiced_amount =
         sum_list (map (\<lambda>entry. hours entry * hourly_rate entry)
                       (filter is_invoiced time_entries)),
       total_unbilled_amount =
         sum_list (map (\<lambda>entry. hours entry * hourly_rate entry)
                       (filter (\<lambda>entry. is_billable entry \<and> \<not> is_invoiced entry) time_entries)),
       entries_count = length time_entries \<rparr>"

text \<open>The invoiced total as the specification words it: billable and invoiced.\<close>

definition spec_total_invoiced :: "TimeEntry list \<Rightarrow> rat" where
  "spec_total_invoiced time_entries =
     (\<Sum>e\<leftarrow>filter (\<lambda>e. is_billable e \<and> is_invoiced e) time_entries. hours e * hourly_rate e)"

text \<open>
  The identifiers of \<^verbatim>\<open>TimeEntry.id.in_(entry_ids)\<close>: a JSON array of numbers.
  A number that is no integer equals no key. Anything else (a scalar, or an array holding
  a non-number) is left to the SQL layer by the source; here it ends in the handler's
  exception branch.
\<close>

fun in_list :: "jval \<Rightarrow> rat list option" where
  "in_list (JArr xs) =
     (if \<forall>x\<in>set xs. (case x of JNum _ \<Rightarrow> True | _ \<Rightarrow> False)
      then Some (map (\<lambda>x. case x of JNum r \<Rightarrow> r | _ \<Rightarrow> 0) xs) else None)"
| "in_list _ = None"

definition mark_entries_invoiced ::
  "(string \<rightharpoonup> jval) \<Rightarrow> TimeEntry list \<Rightarrow> nat response \<times> TimeEntry list" where
  "mark_entries_invoiced data entries =
     (let entry_ids = (case data ''entry_ids'' of None \<Rightarrow> JArr [] | Some v \<Rightarrow> v)
      in if \<not> truthy entry_ids then (Failure 400 ''Entry IDs are required'', entries)
         else (case in_list entry_ids of
                 None \<Rightarrow> (Unhandled ArgumentError, entries)
               | Some ids \<Rightarrow>
                   (let hit = (\<lambda>e. of_int (entry_id e) \<in> set ids);
                        updated_count = length (filter hit entries)
                    in (Success 200 updated_count,
                        map (\<lambda>e. if hit e then e\<lparr>is_invoiced := True\<rparr> else e) entries))))"

definition example_entry :: "int \<Rightarrow> rat \<Rightarrow> rat \<Rightarrow> bool \<Rightarrow> bool \<Rightarrow> TimeEntry" where
  "example_entry i h r b invd =
     \<lparr> entry_id = i, entry_project_id = None, user_name = ''Dana'', description = ''Site visit'',
       hours = h, hourly_rate = r, entry_date = 0, is_billable = b, is_invoiced = invd \<rparr>"

section \<open>Application statistics (\<^verbatim>\<open>routes/applications.py\<close>)\<close>









section \<open>Matching engine (\<^verbatim>\<open>routes/ai_chat.py\<close>)\<close>

datatype reason = UnitCountFit | PopulationFit | ConstructionFit | AmountFit rat rat

record recommendation =
  rec_source :: FundingSource
  match_score :: int
  reasons :: "reason list"

text \<open>
  The body of the loop over the available sources: \<^verbatim>\<open>match_score\<close> and
  \<^verbatim>\<open>reasons\<close> start empty and pass through the four \<^verbatim>\<open>if\<close> statements
  in turn. \<^verbatim>\<open>project.total_units and project.total_units >= 20\<close> is false for a
  missing and for a zero count; \<^verbatim>\<open>source.award_amount_min and
  source.award_amount_max\<close> is false when either bound is missing or is zero.
\<close>

definition score_source :: "Project \<Rightarrow> FundingSource \<Rightarrow> int \<times> reason list" where
  "score_source project source =
     (let (score, rs) = (0, []);
          (score, rs) =
            (if type_value (fs_type source) = ''LIHTC 9%''
                \<and> (case total_units project of None \<Rightarrow> False | Some u \<Rightarrow> u \<noteq> 0 \<and> 20 \<le> u)
             then (score + 30, rs @ [UnitCountFit]) else (score, rs));
          (score, rs) =
            (if type_value (fs_type source) = ''FHLB AHP''
                \<and> population_type project = Some ''Family''
             then (score + 25, rs @ [PopulationFit]) else (score, rs));
          (score, rs) =
            (if type_value (fs_type source) = ''HOME''
                \<and> (case project_type project of
                      None \<Rightarrow> False
                    | Some t \<Rightarrow> t \<in> set [''New Construction'', ''Rehabilitation''])
             then (score + 20, rs @ [ConstructionFit]) else (score, rs));
          (score, rs) =
            (case (award_amount_min source, award_amount_max source) of
               (Some lo, Some hi) \<Rightarrow>
                 (if lo \<noteq> 0 \<and> hi \<noteq> 0
                  then (let gap = or0 (total_cost project)
                                    - sum_list (map (\<lambda>app. or0 (awarded_amount app))
                                                    (applications project))
                        in if lo \<le> gap \<and> gap \<le> hi
                           then (score + 25, rs @ [AmountFit lo hi]) else (score, rs))
                  else (score, rs))
             | _ \<Rightarrow> (score, rs))
      in (score, rs))"

text \<open>
  \<^verbatim>\<open>list.sort(key=..., reverse=True)\<close>: a stable sort into descending key order,
  elements of equal key keeping their order. That is the stable insertion sort on the
  negated key.
\<close>

definition sort_reverse :: "('a \<Rightarrow> int) \<Rightarrow> 'a list \<Rightarrow> 'a list" where
  "sort_reverse k xs = sort_key (\<lambda>x. - k x) xs"

record recommendations_data =
  rd_project_name :: string
  recommendations :: "recommendation list"
  total_available_sources :: nat

text \<open>
  \<^verbatim>\<open>get_funding_recommendations\<close>, from the project and the rows of the funding
  sources table in the order the query returns them.
\<close>

definition get_funding_recommendations ::
  "Project \<Rightarrow> FundingSource list \<Rightarrow> recommendations_data" where
  "get_funding_recommendations project sources =
     (let all_sources = filter is_active sources;
          applied_source_ids = map funding_source_id (applications project);
          available_sources = filter (\<lambda>source. fs_id source \<notin> set applied_source_ids) all_sources;
          recs = List.map_filter
                   (\<lambda>source. (let (score, rs) = score_source project source
                              in if score > 0
                                 then Some \<lparr> rec_source = source, match_score = score, reasons = rs \<rparr>
                                 else None))
                   available_sources;
          sorted_recs = sort_reverse match_score recs
      in \<lparr> rd_project_name = project_name project,
           recommendations = take 5 sorted_recs,
           total_available_sources = length available_sources \<rparr>)"

text \<open>
  The rule table of the specification, each rule applied on its own and the scores
  added. \<open>claimed_amount_fit\<close> is the fourth rule as the specification words it (both
  bounds set, the gap between them); \<open>amount_fit\<close> is the rule the code applies (both
  bounds set and not zero).
\<close>

definition unit_count_fit :: "Project \<Rightarrow> FundingSource \<Rightarrow> bool" where
  "unit_count_fit p s =
     (fs_type s = LIHTC_9_PERCENT \<and> (case total_units p of None \<Rightarrow> False | Some u \<Rightarrow> 20 \<le> u))"

definition population_fit :: "Project \<Rightarrow> FundingSource \<Rightarrow> bool" where
  "population_fit p s = (fs_type s = FHLB_AHP \<and> population_type p = Some ''Family'')"

definition construction_fit :: "Project \<Rightarrow> FundingSource \<Rightarrow> bool" where
  "construction_fit p s =
     (fs_type s = HOME
      \<and> (project_type p = Some ''New Construction'' \<or> project_type p = Some ''Rehabilitation''))"

definition claimed_amount_fit :: "Project \<Rightarrow> FundingSource \<Rightarrow> bool" where
  "claimed_amount_fit p s =
     (case (award_amount_min s, award_amount_max s) of
        (Some lo, Some hi) \<Rightarrow> lo \<le> spec_funding_gap p \<and> spec_funding_gap p \<le> hi
      | _ \<Rightarrow> False)"

definition amount_fit :: "Project \<Rightarrow> FundingSource \<Rightarrow> bool" where
  "amount_fit p s =
     (case (award_amount_min s, award_amount_max s) of
        (Some lo, Some hi) \<Rightarrow>
          lo \<noteq> 0 \<and> hi \<noteq> 0 \<and> lo \<le> spec_funding_gap p \<and> spec_funding_gap p \<le> hi
      | _ \<Rightarrow> False)"

definition rule_score :: "Project \<Rightarrow> FundingSource \<Rightarrow> int" where
  "rule_score p s =
     (if unit_count_fit p s then 30 else 0) + (if population_fit p s then 25 else 0)
       + (if construction_fit p s then 20 else 0) + (if amount_fit p s then 25 else 0)"

definition claimed_score :: "Project \<Rightarrow> FundingSource \<Rightarrow> int" where
  "claimed_score p s =
     (if unit_count_fit p s then 30 else 0) + (if population_fit p s then 25 else 0)
       + (if construction_fit p s then 20 else 0) + (if claimed_amount_fit p s then 25 else 0)"

text \<open>The active sources the project has not applied to, in table order.\<close>

definition available :: "Project \<Rightarrow> FundingSource list \<Rightarrow> FundingSource list" where
  "available p sources =
     filter (\<lambda>s. is_active s \<and> fs_id s \<notin> funding_source_id ` set (applications p)) sources"

definition example_source ::
  "int \<Rightarrow> FundingSourceType \<Rightarrow> rat option \<Rightarrow> rat option \<Rightarrow> FundingSource" where
  "example_source i ty lo hi =
     \<lparr> fs_id = i, fs_name = ''Program'', fs_type = ty, award_amount_min = lo,
       award_amount_max = hi, is_active = True \<rparr>"

definition family_project :: Project where
  "family_project =
     \<lparr> project_id = 1, project_name = ''Riverside Commons'', city = None, state = None,
       phase = None, project_type = None, population_type = Some ''Family'',
       total_units = Some 25, total_cost = None, sharepoint_site_url = None,
       sharepoint_email = None, sharepoint_group_id = None, applications = [] \<rparr>"

text \<open>
  The answer's list, and the list the specification describes: the available sources of
  positive score, stably sorted by descending score, cut to five.
\<close>

definition recommended :: "Project \<Rightarrow> FundingSource list \<Rightarrow> recommendation list" where
  "recommended p sources = recommendations (get_funding_recommendations p sources)"

definition spec_recommended :: "Project \<Rightarrow> FundingSource list \<Rightarrow> FundingSource list" where
  "spec_recommended p sources =
     take 5 (sort_key (\<lambda>s. - rule_score p s)
               (filter (\<lambda>s. 0 < rule_score p s) (available p sources)))"

section \<open>External site provisioner (\<^verbatim>\<open>services/sharepoint_service.py\<close>)\<close>

subsection \<open>Folder taxonomy\<close>

text \<open>
  \<^verbatim>\<open>f"{i:02d}"\<close>: the decimal digits of \<open>i\<close>, padded on the left with zeros to
  two characters.
\<close>

definition digit :: "nat \<Rightarrow> char" where
  "digit n = ''0123456789'' ! n"

fun digits10 :: "nat \<Rightarrow> string" where
  "digits10 n = (if n < 10 then [digit n] else digits10 (n div 10) @ [digit (n mod 10)])"

declare digits10.simps [simp del]

definition fmt02 :: "nat \<Rightarrow> string" where
  "fmt02 i = (let s = digits10 i in replicate (2 - length s) CHR ''0'' @ s)"

definition base_folders :: "string list" where
  "base_folders =
     [''01 - Project Planning'',
      ''02 - Financial Documents'',
      ''03 - Legal & Compliance'',
      ''04 - Construction Documents'',
      ''05 - Marketing & Leasing'',
      ''06 - Environmental Reports'',
      ''07 - Permits & Approvals'',
      ''08 - Team Communications'']"

text \<open>
  \<^verbatim>\<open>get_default_folder_structure\<close>. The argument defaults to \<^verbatim>\<open>None\<close>;
  \<^verbatim>\<open>if funding_sources:\<close> is false for \<^verbatim>\<open>None\<close> and for the empty list.
  \<^verbatim>\<open>enumerate(funding_sources, 9)\<close> numbers the sources from 9.
\<close>

definition get_default_folder_structure :: "string list option \<Rightarrow> string list" where
  "get_default_folder_structure funding_sources =
     (case funding_sources of
        None \<Rightarrow> base_folders
      | Some fs \<Rightarrow>
          (if fs \<noteq> []
           then base_folders
                  @ map (\<lambda>(i, source). fmt02 i @ '' - '' @ source @ '' Application'')
                        (List.enumerate 9 fs)
           else base_folders))"

text \<open>
  The list \<^verbatim>\<open>create_project_sharepoint_site\<close> hands over:
  \<^verbatim>\<open>[app.funding_source.name for app in project.applications if app.funding_source]\<close>,
  one name per application, in the order of the applications.
\<close>

definition funding_source_names :: "Project \<Rightarrow> string list" where
  "funding_source_names project =
     List.map_filter (\<lambda>app. map_option fs_name (funding_source app)) (applications project)"

definition project_folder_structure :: "Project \<Rightarrow> string list" where
  "project_folder_structure project =
     get_default_folder_structure (Some (funding_source_names project))"

subsection \<open>The collaboration API and the clock\<close>

text \<open>
  What the service cannot decide itself is a parameter: the answer to the group creation,
  the answer to the \<open>k\<close>-th request for the group's site and the seconds that request
  takes, and the answer to each folder creation. A request's exception (a failed token
  request included) is its \<open>Inl\<close>. The state the service changes is the clock (in
  seconds), the number of site requests made, and the log of requests sent.
\<close>

type_synonym site_info = "(string \<times> string) list"

datatype call =
  CreateGroup string jval | GetSite string | CreateFolder string string

record graph =
  create_group_result :: "exn + string"
  site_poll :: "nat \<Rightarrow> exn + site_info"
  poll_seconds :: "nat \<Rightarrow> nat"
  folder_result :: "string \<Rightarrow> exn + string"

record world =
  clock :: nat
  polls :: nat
  calls :: "call list"

text \<open>
  The loop of \<^verbatim>\<open>wait_for_sharepoint_site\<close>: while the clock is before
  \<^verbatim>\<open>end_time\<close>, ask for the site; a non-empty answer is returned; status 404 sleeps
  30 seconds and goes round again; any other exception leaves the loop; an empty answer
  goes round again without sleeping. Leaving the loop by its condition returns
  \<^verbatim>\<open>None\<close>. The loop may not return in general (empty answers that take no time),
  so it is a partial function.
\<close>

partial_function (option) wait_loop ::
  "graph \<Rightarrow> string \<Rightarrow> nat \<Rightarrow> world \<Rightarrow> ((exn + site_info option) \<times> world) option" where
  "wait_loop g group_id end_time w =
     (if clock w < end_time
      then (let w1 = w\<lparr> clock := clock w + poll_seconds g (polls w),
                         polls := Suc (polls w),
                         calls := calls w @ [GetSite group_id] \<rparr>
            in case site_poll g (polls w) of
                 Inr site_info \<Rightarrow>
                   (if site_info \<noteq> [] then Some (Inr (Some site_info), w1)
                    else wait_loop g group_id end_time w1)
               | Inl e \<Rightarrow>
                   (if e = HTTPError 404
                    then wait_loop g group_id end_time (w1\<lparr> clock := clock w1 + 30 \<rparr>)
                    else Some (Inl e, w1)))
      else Some (Inr None, w))"

definition wait_for_sharepoint_site ::
  "graph \<Rightarrow> string \<Rightarrow> nat \<Rightarrow> world \<Rightarrow> ((exn + site_info option) \<times> world) option" where
  "wait_for_sharepoint_site g group_id max_wait_minutes w =
     wait_loop g group_id (clock w + 60 * max_wait_minutes) w"

text \<open>
  \<^verbatim>\<open>''.join(c.lower() for c in project_name if c.isalnum())[:64]\<close>, on ASCII
  names: letters and digits are kept, upper case letters are lowered.
\<close>

definition isalnum :: "char \<Rightarrow> bool" where
  "isalnum c = (let n = (of_char c :: nat)
                in (48 \<le> n \<and> n \<le> 57) \<or> (65 \<le> n \<and> n \<le> 90) \<or> (97 \<le> n \<and> n \<le> 122))"

definition lower :: "char \<Rightarrow> char" where
  "lower c = (let n = (of_char c :: nat) in if 65 \<le> n \<and> n \<le> 90 then char_of (n + 32) else c)"

definition mail_nickname_of :: "string \<Rightarrow> string" where
  "mail_nickname_of name = take 64 (map lower (filter isalnum name))"

definition create_project_group ::
  "graph \<Rightarrow> string \<Rightarrow> jval \<Rightarrow> world \<Rightarrow> (exn + string \<times> string) \<times> world" where
  "create_project_group g name owner_user_id w =
     (let mail_nickname = mail_nickname_of name;
          w1 = w\<lparr> calls := calls w @ [CreateGroup mail_nickname owner_user_id] \<rparr>
      in case create_group_result g of
           Inl e \<Rightarrow> (Inl e, w1)
         | Inr gid \<Rightarrow> (Inr (gid, mail_nickname), w1))"

text \<open>
  \<^verbatim>\<open>create_folder_structure\<close>: one request per folder; an
  \<^verbatim>\<open>HTTPError\<close> is printed and the loop goes on, any other exception leaves it.
\<close>

fun create_folder_structure ::
  "graph \<Rightarrow> string \<Rightarrow> string list \<Rightarrow> string list \<Rightarrow> world \<Rightarrow> (exn + string list) \<times> world" where
  "create_folder_structure g group_id [] created_folders w = (Inr created_folders, w)"
| "create_folder_structure g group_id (folder_name # rest) created_folders w =
     (let w1 = w\<lparr> calls := calls w @ [CreateFolder group_id folder_name] \<rparr>
      in case folder_result g folder_name of
           Inr result \<Rightarrow> create_folder_structure g group_id rest (created_folders @ [result]) w1
         | Inl (HTTPError code) \<Rightarrow> create_folder_structure g group_id rest created_folders w1
         | Inl e \<Rightarrow> (Inl e, w1))"

record site_result =
  sr_group_id :: string
  sr_mail_nickname :: string
  sr_sharepoint_site_url :: "string option"
  sr_sharepoint_email :: string
  sr_created_folders :: "string list"

text \<open>
  \<^verbatim>\<open>create_complete_project_site\<close>: the group, then the wait with its default of
  ten minutes, then the folders. A wait that returns \<^verbatim>\<open>None\<close> (or an empty
  answer) raises the time-out. \<^verbatim>\<open>tenant_id.split('.')[0]\<close> is the tenant
  identifier up to its first dot.
\<close>

definition create_complete_project_site ::
  "graph \<Rightarrow> string \<Rightarrow> string \<Rightarrow> jval \<Rightarrow> string list option \<Rightarrow> world
     \<Rightarrow> ((exn + site_result) \<times> world) option" where
  "create_complete_project_site g tenant_id name owner_user_id funding_sources w =
     (case create_project_group g name owner_user_id w of
        (Inl e, w1) \<Rightarrow> Some (Inl e, w1)
      | (Inr (group_id, mail_nickname), w1) \<Rightarrow>
          (case wait_for_sharepoint_site g group_id 10 w1 of
             None \<Rightarrow> None
           | Some (Inl e, w2) \<Rightarrow> Some (Inl e, w2)
           | Some (Inr None, w2) \<Rightarrow>
               Some (Inl (Exception ''SharePoint site provisioning timed out''), w2)
           | Some (Inr (Some site_info), w2) \<Rightarrow>
               (if site_info = []
                then Some (Inl (Exception ''SharePoint site provisioning timed out''), w2)
                else (let folder_structure = get_default_folder_structure funding_sources
                      in case create_folder_structure g group_id folder_structure [] w2 of
                           (Inl e, w3) \<Rightarrow> Some (Inl e, w3)
                         | (Inr created_folders, w3) \<Rightarrow>
                             Some (Inr \<lparr> sr_group_id = group_id,
                                         sr_mail_nickname = mail_nickname,
                                         sr_sharepoint_site_url = map_of site_info ''webUrl'',
                                         sr_sharepoint_email =
                                           mail_nickname @ ''@'' @ takeWhile (\<lambda>c. c \<noteq> CHR ''.'') tenant_id
                                             @ ''.onmicrosoft.com'',
                                         sr_created_folders = created_folders \<rparr>, w3)))))"

section \<open>Site routes (\<^verbatim>\<open>routes/sharepoint.py\<close>)\<close>

text \<open>Python's truth value of a nullable string: set and not empty.\<close>

definition str_truthy :: "string option \<Rightarrow> bool" where
  "str_truthy x = (case x of None \<Rightarrow> False | Some s \<Rightarrow> s \<noteq> [])"

record azure =
  AZURE_TENANT_ID :: "string option"
  AZURE_CLIENT_ID :: "string option"
  AZURE_CLIENT_SECRET :: "string option"

record create_site_data =
  cs_project_id :: int
  cs_group_id :: string
  cs_sharepoint_site_url :: "string option"
  cs_sharepoint_email :: string
  cs_folders_created :: nat

text \<open>
  \<^verbatim>\<open>create_project_sharepoint_site\<close>, over the projects table, the request body
  (\<^verbatim>\<open>request.get_json() or {}\<close>), the environment and the outside world. The
  checks come in the source's order; the first to fail answers, and nothing after it
  runs. An exception from the service reaches \<^verbatim>\<open>except Exception\<close>: the session
  is rolled back, so the table is as before. (The 400 envelope of the first check also
  carries the existing URL.)
\<close>

definition create_project_sharepoint_site ::
  "graph \<Rightarrow> azure \<Rightarrow> int \<Rightarrow> (string \<rightharpoonup> jval) \<Rightarrow> Project list \<Rightarrow> world
     \<Rightarrow> (create_site_data response \<times> Project list \<times> world) option" where
  "create_project_sharepoint_site g env pid data projects w =
     (case find (\<lambda>p. project_id p = pid) projects of
        None \<Rightarrow> Some (Unhandled NotFound, projects, w)
      | Some project \<Rightarrow>
          if str_truthy (sharepoint_site_url project)
          then Some (Failure 400 ''SharePoint site already exists for this project'', projects, w)
          else if \<not> get_truthy data ''owner_user_id''
          then Some (Failure 400 ''owner_user_id is required'', projects, w)
          else if \<not> (str_truthy (AZURE_TENANT_ID env) \<and> str_truthy (AZURE_CLIENT_ID env)
                       \<and> str_truthy (AZURE_CLIENT_SECRET env))
          then Some (Failure 500
                 (''Azure credentials not configured. Please set AZURE_TENANT_ID, ''
                    @ ''AZURE_CLIENT_ID, and AZURE_CLIENT_SECRET environment variables.''),
                 projects, w)
          else (let funding_sources = funding_source_names project
                in case create_complete_project_site g
                          (case AZURE_TENANT_ID env of None \<Rightarrow> [] | Some t \<Rightarrow> t)
                          (project_name project)
                          (case data ''owner_user_id'' of None \<Rightarrow> JNull | Some v \<Rightarrow> v)
                          (Some funding_sources) w of
                     None \<Rightarrow> None
                   | Some (Inl e, w') \<Rightarrow> Some (Unhandled e, projects, w')
                   | Some (Inr site, w') \<Rightarrow>
                       (let project' =
                              project\<lparr> sharepoint_site_url := sr_sharepoint_site_url site,
                                       sharepoint_email := Some (sr_sharepoint_email site),
                                       sharepoint_group_id := Some (sr_group_id site) \<rparr>
                        in Some (Success 200
                                   \<lparr> cs_project_id = project_id project,
                                     cs_group_id = sr_group_id site,
                                     cs_sharepoint_site_url = sr_sharepoint_site_url site,
                                     cs_sharepoint_email = sr_sharepoint_email site,
                                     cs_folders_created = length (sr_created_folders site) \<rparr>,
                                 map (\<lambda>p. if project_id p = pid then project' else p) projects,
                                 w'))))"

definition sited_project :: "string option \<Rightarrow> Application list \<Rightarrow> Project" where
  "sited_project url apps =
     \<lparr> project_id = 4, project_name = ''Oak Street Lofts'', city = Some ''Tulsa'',
       state = Some ''OK'', phase = None, project_type = None, population_type = None,
       total_units = None, total_cost = None, sharepoint_site_url = url,
       sharepoint_email = None, sharepoint_group_id = None, applications = apps \<rparr>"

definition applied_to :: "int \<Rightarrow> FundingSource \<Rightarrow> Application" where
  "applied_to i src =
     \<lparr> app_id = i, funding_source_id = fs_id src, funding_source = Some src,
       app_status = DRAFT, requested_amount = None, awarded_amount = None \<rparr>"

definition never_ready :: graph where
  "never_ready =
     \<lparr> create_group_result = Inr ''g-1'',
       site_poll = (\<lambda>k. Inl (HTTPError 404)),
       poll_seconds = (\<lambda>k. 0),
       folder_result = (\<lambda>f. Inr f) \<rparr>"


definition configured :: azure where
  "configured =
     \<lparr> AZURE_TENANT_ID = Some ''contoso.example'', AZURE_CLIENT_ID = Some ''client'',
       AZURE_CLIENT_SECRET = Some ''secret'' \<rparr>"

definition start :: world where
  "start = \<lparr> clock = 0, polls = 0, calls = [] \<rparr>"

section \<open>Writing time entries (\<^verbatim>\<open>routes/time_tracking.py\<close>)\<close>
















section \<open>Properties of the funding aggregator\<close>

lemma or0_eq: "or0 x = (case x of None \<Rightarrow> 0 | Some v \<Rightarrow> v)"
  by (simp add: or0_def split: option.splits)

lemma funding_gap_spec: "funding_gap p = spec_funding_gap p"
  by (simp add: funding_gap_def spec_funding_gap_def total_awarded_def or0_eq)






section \<open>Properties of the time and billing summarizer\<close>

text \<open>
  C3. The specification counts an entry in the invoiced total only when it is billable and
  invoiced. The summary's comprehension tests \<^verbatim>\<open>entry.is_invoiced\<close> alone, so a
  single entry of 2 hours at 100 that is invoiced but not billable is reported as 200
  invoiced, where the specification's total is 0; the billable total and the unbilled
  total, whose comprehensions do test \<^verbatim>\<open>entry.is_billable\<close>, are both 0.
\<close>

theorem summary_invoiced_not_billable:
  "total_invoiced_amount (get_time_summary [example_entry 1 2 100 False True]) = 200
   \<and> spec_total_invoiced [example_entry 1 2 100 False True] = 0
   \<and> total_amount (get_time_summary [example_entry 1 2 100 False True]) = 0
   \<and> total_unbilled_amount (get_time_summary [example_entry 1 2 100 False True]) = 0"
  by (simp add: get_time_summary_def spec_total_invoiced_def example_entry_def)







text \<open>
  C10. A request whose \<^verbatim>\<open>entry_ids\<close> is absent, null or the empty list is
  answered with status 400 and the message \<^verbatim>\<open>Entry IDs are required\<close>; no entry
  is touched, and no success envelope with count 0 is produced.
\<close>

theorem mark_entries_invoiced_requires_ids:
  "data ''entry_ids'' = None \<or> data ''entry_ids'' = Some (JArr [])
     \<or> data ''entry_ids'' = Some JNull \<Longrightarrow>
   mark_entries_invoiced data entries = (Failure 400 ''Entry IDs are required'', entries)
   \<and> mark_entries_invoiced data entries \<noteq> (Success 200 0, entries)"
  by (auto simp: mark_entries_invoiced_def)

theorem mark_entries_invoiced_requires_ids_witness:
  "mark_entries_invoiced Map.empty [example_entry 1 8 125 True False]
     = (Failure 400 ''Entry IDs are required'', [example_entry 1 8 125 True False])
   \<and> mark_entries_invoiced (Map.empty(''entry_ids'' \<mapsto> JArr [])) [example_entry 1 8 125 True False]
     = (Failure 400 ''Entry IDs are required'', [example_entry 1 8 125 True False])"
proof -
  have a: "(Map.empty :: string \<rightharpoonup> jval) ''entry_ids'' = None" by simp
  have b: "(Map.empty(''entry_ids'' \<mapsto> JArr [])) ''entry_ids'' = Some (JArr [])" by simp
  from mark_entries_invoiced_requires_ids [of Map.empty "[example_entry 1 8 125 True False]"]
       mark_entries_invoiced_requires_ids
         [of "Map.empty(''entry_ids'' \<mapsto> JArr [])" "[example_entry 1 8 125 True False]"]
       a b
  show ?thesis by blast
qed

section \<open>Properties of the application statistics\<close>





section \<open>Properties of the matching engine\<close>

lemma type_value_eq [simp]:
  "(type_value t = ''LIHTC 9%'') = (t = LIHTC_9_PERCENT)"
  "(type_value t = ''FHLB AHP'') = (t = FHLB_AHP)"
  "(type_value t = ''HOME'') = (t = HOME)"
  by (cases t; simp)+

lemma score_source_rule: "fst (score_source p s) = rule_score p s"
proof -
  have g: "or0 (total_cost p) - sum_list (map (\<lambda>app. or0 (awarded_amount app)) (applications p))
             = spec_funding_gap p"
    using funding_gap_spec [of p] by (simp add: funding_gap_def total_awarded_def)
  show ?thesis
    unfolding score_source_def rule_score_def unit_count_fit_def population_fit_def
      construction_fit_def amount_fit_def Let_def g
    by (auto split: option.splits prod.splits)
qed

lemma insort_key_map:
  "insort_key k (f x) (map f xs) = map f (insort_key (\<lambda>y. k (f y)) x xs)"
  by (induction xs) simp_all

lemma sort_key_map: "sort_key k (map f xs) = map f (sort_key (\<lambda>y. k (f y)) xs)"
  by (induction xs) (simp_all add: insort_key_map)

lemma filter_take_prefix:
  "filter P (take n xs) = take (length (filter P (take n xs))) (filter P xs)"
proof (induction xs arbitrary: n)
  case Nil
  then show ?case by simp
next
  case (Cons x xs)
  show ?case
  proof (cases n)
    case 0
    then show ?thesis by simp
  next
    case (Suc m)
    with Cons [of m] show ?thesis by simp
  qed
qed

lemma sorted_take_drop_le:
  assumes "sorted (map k xs)" "x \<in> set (take n xs)" "y \<in> set (drop n xs)"
  shows "k x \<le> k y"
proof -
  have "sorted (map k (take n xs) @ map k (drop n xs))"
    using assms(1) by (simp flip: map_append)
  with assms(2,3) show ?thesis by (auto simp: sorted_append)
qed
lemma recommended_eq:
  "recommended p sources =
     map (\<lambda>s. \<lparr> rec_source = s, match_score = rule_score p s,
                reasons = snd (score_source p s) \<rparr>)
         (spec_recommended p sources)"
proof -
  let ?mk = "\<lambda>s. \<lparr> rec_source = s, match_score = rule_score p s,
                     reasons = snd (score_source p s) \<rparr>"
  let ?f = "\<lambda>source. (case score_source p source of
                         (score, rs) \<Rightarrow>
                           if score > 0
                           then Some \<lparr> rec_source = source, match_score = score, reasons = rs \<rparr>
                           else None)"
  have f: "?f s = (if 0 < rule_score p s then Some (?mk s) else None)" for s
    using score_source_rule [of p s] by (cases "score_source p s") simp
  have av: "filter (\<lambda>source. fs_id source \<notin> set (map funding_source_id (applications p)))
              (filter is_active sources) = available p sources"
    by (simp add: available_def conj_commute)
  have mf: "List.map_filter ?f (available p sources)
              = map ?mk (filter (\<lambda>s. 0 < rule_score p s) (available p sources))"
    unfolding map_filter_def f by (rule map_cong) (simp_all cong: filter_cong)
  show ?thesis
    unfolding recommended_def get_funding_recommendations_def Let_def av mf
      sort_reverse_def spec_recommended_def
    by (simp add: sort_key_map take_map)
qed

lemma spec_recommended_sorted:
  "sorted (map (\<lambda>s. - rule_score p s) (spec_recommended p sources))"
proof -
  have "sorted (map (\<lambda>s. - rule_score p s)
           (sort_key (\<lambda>s. - rule_score p s)
              (filter (\<lambda>s. 0 < rule_score p s) (available p sources))))"
    by (rule sorted_sort_key)
  then show ?thesis
    unfolding spec_recommended_def take_map [symmetric] by (rule sorted_wrt_take)
qed

lemma spec_recommended_set:
  "set (spec_recommended p sources)
     \<subseteq> {s \<in> set (available p sources). 0 < rule_score p s}"
proof -
  have "set (spec_recommended p sources)
          \<subseteq> set (sort_key (\<lambda>s. - rule_score p s)
                    (filter (\<lambda>s. 0 < rule_score p s) (available p sources)))"
    unfolding spec_recommended_def by (rule set_take_subset)
  then show ?thesis by auto
qed

lemma spec_recommended_stable:
  "\<exists>n. filter (\<lambda>s. rule_score p s = k) (spec_recommended p sources)
         = take n (filter (\<lambda>s. rule_score p s = k) (available p sources))"
proof (cases "0 < k")
  case True
  let ?pos = "filter (\<lambda>s. 0 < rule_score p s) (available p sources)"
  have e: "(\<lambda>s. rule_score p s = k) = (\<lambda>s. - rule_score p s = - k)" by auto
  have "filter (\<lambda>s. - rule_score p s = - k) (sort_key (\<lambda>s. - rule_score p s) ?pos)
          = filter (\<lambda>s. - rule_score p s = - k) ?pos"
    by (rule sort_key_stable)
  also have "\<dots> = filter (\<lambda>s. rule_score p s = k) (available p sources)"
    using True by (auto intro: filter_cong)
  finally have s: "filter (\<lambda>s. rule_score p s = k) (sort_key (\<lambda>s. - rule_score p s) ?pos)
                     = filter (\<lambda>s. rule_score p s = k) (available p sources)"
    unfolding e .
  show ?thesis
    unfolding spec_recommended_def
    using filter_take_prefix [of "\<lambda>s. rule_score p s = k" 5
        "sort_key (\<lambda>s. - rule_score p s) ?pos"]
    unfolding s by blast
next
  case False
  have "filter (\<lambda>s. rule_score p s = k) (spec_recommended p sources) = []"
    using False spec_recommended_set [of p sources] by (auto simp: filter_empty_conv)
  then show ?thesis by (intro exI [of _ 0]) simp
qed

lemma spec_recommended_cut:
  assumes "s \<in> set (available p sources)" "0 < rule_score p s"
    "s \<notin> set (spec_recommended p sources)"
  shows "length (spec_recommended p sources) = 5
         \<and> (\<forall>t\<in>set (spec_recommended p sources). rule_score p s \<le> rule_score p t)"
proof -
  let ?srt = "sort_key (\<lambda>s. - rule_score p s)
                (filter (\<lambda>s. 0 < rule_score p s) (available p sources))"
  have m: "s \<in> set ?srt" using assms(1,2) by simp
  from m have "s \<in> set (take 5 ?srt @ drop 5 ?srt)"
    by (simp only: append_take_drop_id)
  then have "s \<in> set (take 5 ?srt) \<or> s \<in> set (drop 5 ?srt)"
    by (simp only: set_append Un_iff)
  moreover have "s \<notin> set (take 5 ?srt)"
    using assms(3) unfolding spec_recommended_def .
  ultimately have d: "s \<in> set (drop 5 ?srt)" by blast
  then have "drop 5 ?srt \<noteq> []" by auto
  then have l: "length (spec_recommended p sources) = 5"
    by (simp add: spec_recommended_def)
  have "\<forall>t\<in>set (take 5 ?srt). - rule_score p t \<le> - rule_score p s"
    using sorted_take_drop_le [of "\<lambda>s. - rule_score p s" ?srt _ 5 s] d sorted_sort_key
    by blast
  with l show ?thesis by (simp add: spec_recommended_def)
qed

text \<open>
  C2, as the code has it. The recommendations are the available sources (active, not yet
  applied to) whose score under the rule table is positive, in descending score order,
  sources of equal score in table order, at most five; a positive source that is cut off
  scores no more than any that is returned. The score is the sum of the four rules, the
  amount rule counting only for a source whose two bounds are set and are not zero. A
  project of 25 units gives an LIHTC 9% source at least 30, a family project gives an
  FHLB AHP source at least 25.
\<close>

theorem funding_recommendations_ranked:
  "map rec_source (recommended p sources) = spec_recommended p sources
   \<and> map match_score (recommended p sources) = map (rule_score p) (spec_recommended p sources)
   \<and> (\<forall>r\<in>set (recommended p sources).
         rec_source r \<in> set (available p sources) \<and> 0 < match_score r
         \<and> match_score r = fst (score_source p (rec_source r)))
   \<and> sorted (rev (map match_score (recommended p sources)))
   \<and> length (recommended p sources) \<le> 5
   \<and> (\<forall>k. \<exists>n. filter (\<lambda>s. rule_score p s = k) (map rec_source (recommended p sources))
                  = take n (filter (\<lambda>s. rule_score p s = k) (available p sources)))
   \<and> (\<forall>s\<in>set (available p sources).
         0 < rule_score p s \<and> s \<notin> rec_source ` set (recommended p sources) \<longrightarrow>
         length (recommended p sources) = 5
         \<and> (\<forall>r\<in>set (recommended p sources). rule_score p s \<le> match_score r))
   \<and> (total_units p = Some 25 \<and> fs_type s = LIHTC_9_PERCENT \<longrightarrow> 30 \<le> fst (score_source p s))
   \<and> (population_type p = Some ''Family'' \<and> fs_type s = FHLB_AHP
         \<longrightarrow> 25 \<le> fst (score_source p s))"
proof -
  note r = recommended_eq [of p sources]
  have 1: "map rec_source (recommended p sources) = spec_recommended p sources"
    by (simp add: r comp_def)
  have 2: "map match_score (recommended p sources)
             = map (rule_score p) (spec_recommended p sources)"
    by (simp add: r comp_def)
  have 3: "\<forall>r\<in>set (recommended p sources).
         rec_source r \<in> set (available p sources) \<and> 0 < match_score r
         \<and> match_score r = fst (score_source p (rec_source r))"
    using spec_recommended_set [of p sources] by (auto simp: r score_source_rule)
  have "sorted (map uminus (map (rule_score p) (spec_recommended p sources)))"
    using spec_recommended_sorted [of p sources] by (simp add: comp_def)
  then have 4: "sorted (rev (map match_score (recommended p sources)))"
    unfolding 2 by (simp add: sorted_wrt_rev sorted_wrt_map)
  have 5: "length (recommended p sources) \<le> 5"
    by (simp add: r spec_recommended_def)
  have 6: "\<forall>k. \<exists>n. filter (\<lambda>s. rule_score p s = k) (map rec_source (recommended p sources))
                  = take n (filter (\<lambda>s. rule_score p s = k) (available p sources))"
    unfolding 1 using spec_recommended_stable [of p _ sources] by blast
  have 7: "\<forall>s\<in>set (available p sources).
         0 < rule_score p s \<and> s \<notin> rec_source ` set (recommended p sources) \<longrightarrow>
         length (recommended p sources) = 5
         \<and> (\<forall>r\<in>set (recommended p sources). rule_score p s \<le> match_score r)"
  proof (intro ballI impI)
    fix s assume a: "s \<in> set (available p sources)"
      "0 < rule_score p s \<and> s \<notin> rec_source ` set (recommended p sources)"
    have "rec_source ` set (recommended p sources) = set (spec_recommended p sources)"
      using 1 by (metis set_map)
    with a spec_recommended_cut [of s p sources]
    have c: "length (spec_recommended p sources) = 5"
      "\<forall>t\<in>set (spec_recommended p sources). rule_score p s \<le> rule_score p t"
      by auto
    from c show "length (recommended p sources) = 5
         \<and> (\<forall>r\<in>set (recommended p sources). rule_score p s \<le> match_score r)"
      by (auto simp: r)
  qed
  have 8: "total_units p = Some 25 \<and> fs_type s = LIHTC_9_PERCENT \<longrightarrow> 30 \<le> fst (score_source p s)"
    by (simp add: score_source_rule rule_score_def unit_count_fit_def)
  have 9: "population_type p = Some ''Family'' \<and> fs_type s = FHLB_AHP
         \<longrightarrow> 25 \<le> fst (score_source p s)"
    by (simp add: score_source_rule rule_score_def population_fit_def)
  from 1 2 3 4 5 6 7 8 9 show ?thesis by blast
qed
theorem funding_recommendations_ranked_witness:
  "map rec_source
      (recommended family_project
         [example_source 3 ORCA None None, example_source 2 FHLB_AHP None None,
          example_source 1 LIHTC_9_PERCENT None None])
     = [example_source 1 LIHTC_9_PERCENT None None, example_source 2 FHLB_AHP None None]
   \<and> map match_score
      (recommended family_project
         [example_source 3 ORCA None None, example_source 2 FHLB_AHP None None,
          example_source 1 LIHTC_9_PERCENT None None])
     = [30, 25]
   \<and> total_units family_project = Some 25
   \<and> population_type family_project = Some ''Family''
   \<and> 30 \<le> fst (score_source family_project (example_source 1 LIHTC_9_PERCENT None None))
   \<and> 25 \<le> fst (score_source family_project (example_source 2 FHLB_AHP None None))"
proof -
  let ?srcs = "[example_source 3 ORCA None None, example_source 2 FHLB_AHP None None,
                example_source 1 LIHTC_9_PERCENT None None]"
  have a: "available family_project ?srcs = ?srcs"
    by (simp add: available_def family_project_def example_source_def)
  have s: "rule_score family_project (example_source 3 ORCA None None) = 0"
    "rule_score family_project (example_source 2 FHLB_AHP None None) = 25"
    "rule_score family_project (example_source 1 LIHTC_9_PERCENT None None) = 30"
    by (simp_all add: rule_score_def unit_count_fit_def population_fit_def
        construction_fit_def amount_fit_def family_project_def example_source_def)
  have e: "spec_recommended family_project ?srcs
             = [example_source 1 LIHTC_9_PERCENT None None, example_source 2 FHLB_AHP None None]"
    unfolding spec_recommended_def a by (simp add: s)
  have u: "total_units family_project = Some 25"
    "population_type family_project = Some ''Family''"
    "fs_type (example_source 1 LIHTC_9_PERCENT None None) = LIHTC_9_PERCENT"
    "fs_type (example_source 2 FHLB_AHP None None) = FHLB_AHP"
    by (simp_all add: family_project_def example_source_def)
  from funding_recommendations_ranked
         [of family_project ?srcs "example_source 1 LIHTC_9_PERCENT None None"]
       funding_recommendations_ranked
         [of family_project ?srcs "example_source 2 FHLB_AHP None None"]
       e s u
  show ?thesis by simp
qed

text \<open>
  The claim as worded scores the amount rule for any source with both bounds. A source
  with the range 0 to 100000 against a gap of 50000 has both bounds and contains the gap,
  so the rule table as worded gives it 25; the code treats the zero bound as unset,
  scores it 0 and does not return it.
\<close>

theorem funding_recommendations_counterexample:
  "claimed_score (example_project 1 (Some 50000) []) (example_source 3 ORCA (Some 0) (Some 100000))
     = 25
   \<and> available (example_project 1 (Some 50000) []) [example_source 3 ORCA (Some 0) (Some 100000)]
     = [example_source 3 ORCA (Some 0) (Some 100000)]
   \<and> fst (score_source (example_project 1 (Some 50000) [])
            (example_source 3 ORCA (Some 0) (Some 100000))) = 0
   \<and> recommended (example_project 1 (Some 50000) []) [example_source 3 ORCA (Some 0) (Some 100000)]
     = []"
proof -
  let ?p = "example_project 1 (Some 50000) []"
  let ?s = "example_source 3 ORCA (Some 0) (Some 100000)"
  have g: "spec_funding_gap ?p = 50000"
    by (simp add: spec_funding_gap_def example_project_def)
  have c: "claimed_score ?p ?s = 25"
    by (simp add: claimed_score_def unit_count_fit_def population_fit_def
        construction_fit_def claimed_amount_fit_def example_source_def g)
  have a: "available ?p [?s] = [?s]"
    by (simp add: available_def example_project_def example_source_def)
  have r: "rule_score ?p ?s = 0"
    by (simp add: rule_score_def unit_count_fit_def population_fit_def
        construction_fit_def amount_fit_def example_source_def g)
  have e: "recommended ?p [?s] = []"
    by (simp add: recommended_eq spec_recommended_def a r)
  from c a r e show ?thesis by (simp add: score_source_rule)
qed

section \<open>Properties of the folder taxonomy\<close>

lemma enumerate_nth_fmt:
  assumes "i < length fs"
  shows "map (\<lambda>(i, source). fmt02 i @ '' - '' @ source @ '' Application'') (List.enumerate 9 fs) ! i
           = fmt02 (9 + i) @ '' - '' @ fs ! i @ '' Application''"
  using assms by (simp add: nth_enumerate_eq)

lemma folder_structure_eq:
  "get_default_folder_structure (Some fs)
     = base_folders @ map (\<lambda>(i, source). fmt02 i @ '' - '' @ source @ '' Application'')
                          (List.enumerate 9 fs)"
  by (simp add: get_default_folder_structure_def)

lemma length_base_folders: "length base_folders = 8"
  by (simp add: base_folders_def)

lemma funding_source_names_length:
  "length (funding_source_names p)
     = length (filter (\<lambda>app. funding_source app \<noteq> None) (applications p))"
  by (simp add: funding_source_names_def map_filter_def)

text \<open>
  C6, as the code has it. The taxonomy of a project is the eight fixed folders, numbered
  01 to 08 in that order, followed by one folder for every application of the project that
  has a funding source, in the order of the applications and numbered from 09 on. A
  funding source applied to twice gets two folders.
\<close>

theorem folder_taxonomy:
  "take 8 (project_folder_structure p) = base_folders
   \<and> map (take 2) base_folders = map fmt02 [1..<9]
   \<and> length (project_folder_structure p)
       = 8 + length (filter (\<lambda>app. funding_source app \<noteq> None) (applications p))
   \<and> length (funding_source_names p)
       = length (filter (\<lambda>app. funding_source app \<noteq> None) (applications p))
   \<and> (\<forall>i < length (funding_source_names p).
        project_folder_structure p ! (8 + i)
          = fmt02 (9 + i) @ '' - '' @ funding_source_names p ! i @ '' Application'')"
proof -
  let ?fs = "funding_source_names p"
  note e = folder_structure_eq [of ?fs]
  have 1: "take 8 (project_folder_structure p) = base_folders"
    by (simp add: project_folder_structure_def e length_base_folders)
  have u: "[1..<9] = [1, 2, 3, 4, 5, 6, 7, 8 :: nat]"
    by (simp add: upt_rec)
  have 2: "map (take 2) base_folders = map fmt02 [1..<9]"
    unfolding u by (simp add: base_folders_def fmt02_def digits10.simps digit_def)
  have 3: "length (project_folder_structure p)
       = 8 + length (filter (\<lambda>app. funding_source app \<noteq> None) (applications p))"
    by (simp add: project_folder_structure_def e length_base_folders
        funding_source_names_length)
  have 4: "\<forall>i < length ?fs.
        project_folder_structure p ! (8 + i)
          = fmt02 (9 + i) @ '' - '' @ ?fs ! i @ '' Application''"
  proof (intro allI impI)
    fix i assume "i < length ?fs"
    then show "project_folder_structure p ! (8 + i)
          = fmt02 (9 + i) @ '' - '' @ ?fs ! i @ '' Application''"
      unfolding project_folder_structure_def e
      using enumerate_nth_fmt [of i ?fs] nth_append_length_plus [of base_folders _ i]
      by (simp add: length_base_folders)
  qed
  from 1 2 3 4 funding_source_names_length [of p] show ?thesis by blast
qed

theorem folder_taxonomy_witness:
  "take 8 (project_folder_structure
      (sited_project None
         [applied_to 1 (example_source 5 HOME None None),
          applied_to 2 (example_source 6 ORCA None None)])) = base_folders
   \<and> length (project_folder_structure
      (sited_project None
         [applied_to 1 (example_source 5 HOME None None),
          applied_to 2 (example_source 6 ORCA None None)])) = 10
   \<and> project_folder_structure
      (sited_project None
         [applied_to 1 (example_source 5 HOME None None),
          applied_to 2 (example_source 6 ORCA None None)]) ! 8 = ''09 - Program Application''
   \<and> project_folder_structure
      (sited_project None
         [applied_to 1 (example_source 5 HOME None None),
          applied_to 2 (example_source 6 ORCA None None)]) ! 9 = ''10 - Program Application''"
proof -
  let ?p = "sited_project None
         [applied_to 1 (example_source 5 HOME None None),
          applied_to 2 (example_source 6 ORCA None None)]"
  have n: "funding_source_names ?p = [''Program'', ''Program'']"
    by (simp add: funding_source_names_def map_filter_def sited_project_def applied_to_def
        example_source_def)
  have f: "fmt02 9 = ''09''" "fmt02 10 = ''10''"
    by (simp_all add: fmt02_def digits10.simps digit_def)
  have t: "take 8 (project_folder_structure ?p) = base_folders"
    using folder_taxonomy [of ?p] by blast
  have "length (project_folder_structure ?p) = 8 + length (funding_source_names ?p)"
    using folder_taxonomy [of ?p] by simp
  then have l: "length (project_folder_structure ?p) = 10"
    unfolding n by simp
  have q: "\<forall>i < length (funding_source_names ?p).
        project_folder_structure ?p ! (8 + i)
          = fmt02 (9 + i) @ '' - '' @ funding_source_names ?p ! i @ '' Application''"
    using folder_taxonomy [of ?p] by blast
  have a: "project_folder_structure ?p ! 8 = ''09 - Program Application''"
    using q [rule_format, of 0] unfolding n by (simp add: f)
  have b: "project_folder_structure ?p ! 9 = ''10 - Program Application''"
    using q [rule_format, of 1] unfolding n by (simp add: f)
  from t l a b show ?thesis by blast
qed

text \<open>
  The claim as worded has one folder per distinct funding source. A project with two
  applications to the same source (two rounds, say) has one distinct source and gets two
  source folders, ten folders in all.
\<close>

theorem folder_taxonomy_counterexample:
  "card (funding_source_id `
          set (applications
                 (sited_project None
                    [applied_to 1 (example_source 5 HOME None None),
                     applied_to 2 (example_source 5 HOME None None)]))) = 1
   \<and> project_folder_structure
        (sited_project None
           [applied_to 1 (example_source 5 HOME None None),
            applied_to 2 (example_source 5 HOME None None)])
       = base_folders @ [''09 - Program Application'', ''10 - Program Application'']
   \<and> length (project_folder_structure
        (sited_project None
           [applied_to 1 (example_source 5 HOME None None),
            applied_to 2 (example_source 5 HOME None None)])) = 10"
proof -
  have f: "fmt02 9 = ''09''" "fmt02 10 = ''10''"
    by (simp_all add: fmt02_def digits10.simps digit_def)
  show ?thesis
    by (simp add: project_folder_structure_def get_default_folder_structure_def
        funding_source_names_def map_filter_def sited_project_def applied_to_def
        example_source_def enumerate_eq_zip upt_rec f length_base_folders)
qed

section \<open>Properties of the site provisioner\<close>

text \<open>
  C4. A create-site request for a project whose stored site URL is set (and not empty)
  is answered with status 400; the projects table, with its site URL, email and group
  id, is returned as it was, and so is the outside world: no request is sent and no
  group is created.
\<close>

theorem create_site_rejected_when_site_exists:
  "find (\<lambda>p. project_id p = pid) projects = Some project \<Longrightarrow>
   sharepoint_site_url project = Some url \<Longrightarrow> url \<noteq> [] \<Longrightarrow>
   create_project_sharepoint_site g env pid data projects w
     = Some (Failure 400 ''SharePoint site already exists for this project'', projects, w)"
  by (simp add: create_project_sharepoint_site_def str_truthy_def)

theorem create_site_rejected_when_site_exists_witness:
  "create_project_sharepoint_site never_ready configured 4
      (Map.empty(''owner_user_id'' \<mapsto> JStr ''u-7''))
      [sited_project (Some ''https://contoso.example/sites/oak'') []] start
     = Some (Failure 400 ''SharePoint site already exists for this project'',
             [sited_project (Some ''https://contoso.example/sites/oak'') []], start)"
proof -
  let ?p = "sited_project (Some ''https://contoso.example/sites/oak'') []"
  have f: "find (\<lambda>p. project_id p = 4) [?p] = Some ?p"
    by (simp add: sited_project_def)
  have u: "sharepoint_site_url ?p = Some ''https://contoso.example/sites/oak''"
    by (simp add: sited_project_def)
  have n: "''https://contoso.example/sites/oak'' \<noteq> []" by simp
  show ?thesis
    by (rule create_site_rejected_when_site_exists [OF f u n])
qed










section \<open>Properties of writing time entries\<close>










end
